theory Spec2Isabelle
  imports Complex_Main
begin

section \<open>Passport photo compliance and crop geometry\<close>

text \<open>
  A shallow embedding of \<^verbatim>\<open>lib/compliance.ts\<close> (\<^verbatim>\<open>checkCompliance\<close>,
  \<^verbatim>\<open>getComplianceSummary\<close>), of \<^verbatim>\<open>getComplianceErrorMessage\<close> from
  \<^verbatim>\<open>lib/passportPhotoProcessor.ts\<close> and of \<^verbatim>\<open>cropToPassport\<close> from
  \<^verbatim>\<open>lib/cropPhoto.ts\<close>.

  Numbers. A TypeScript \<^verbatim>\<open>number\<close> is an IEEE double. It is modelled here by a
  \<^typ>\<open>real\<close>: all inputs are finite, and every arithmetic operation is exact. Rounding,
  \<^verbatim>\<open>NaN\<close> and the infinities are outside the model. Three divisions of
  \<^verbatim>\<open>checkCompliance\<close> have an input as divisor (\<^verbatim>\<open>imageHeight\<close> twice,
  \<^verbatim>\<open>imageWidth\<close> once); the model agrees with the code there for non-zero image
  dimensions only, which is the contract of the function (both dimensions positive). In
  \<^verbatim>\<open>cropToPassport\<close> the divisor \<^verbatim>\<open>scale\<close> is used in quotients only, and for a
  bounding box of height zero both the code (\<^verbatim>\<open>scale = Infinity\<close>, \<^verbatim>\<open>c / scale = 0\<close>) and
  the model (\<open>scale = 0\<close>, \<open>c / 0 = 0\<close>) compute the quotient zero.

  Rounding changes no branch of the two functions on the inputs considered below, but it
  does change the last digits of a metric. Where a property depends on those digits, the
  metric is computed a second time with every operation rounded to the nearest double
  (\<open>fl\<close> below, for normal doubles: no overflow, no subnormal results).

  Strings are byte lists; the two non-ASCII characters of the messages are written as
  their UTF-8 bytes.
\<close>

subsection \<open>Data model (\<^verbatim>\<open>faceDetection.ts\<close>, \<^verbatim>\<open>compliance.ts\<close>)\<close>

record Point2D =
  px :: real
  py :: real

record BoundingBox =
  originX :: real
  originY :: real
  width :: real
  height :: real

record FaceLandmarks =
  leftEye :: Point2D
  rightEye :: Point2D
  nose :: Point2D
  mouth :: Point2D

record FaceDetectionResult =
  boundingBox :: BoundingBox
  landmarks :: FaceLandmarks
  confidence :: real

record ComplianceMetrics =
  faceCount :: nat
  headHeightPercent :: real
  eyeHeightPercent :: real
  headTiltDegrees :: real
  horizontalCenterOffset :: real

record ComplianceCheck =
  check_id :: string
  label :: string
  passed :: bool
  message :: string

record ComplianceResult =
  result_passed :: bool
  checks :: "ComplianceCheck list"
  metrics :: ComplianceMetrics
  faceData :: "FaceDetectionResult option"

subsection \<open>Built-ins of the language\<close>

text \<open>
  \<^verbatim>\<open>Number::toString\<close> on an integral value, as a template literal prints an array
  length or a rounded number: the decimal digits, most significant first, after a minus
  sign for a negative value.
\<close>

definition digitChar :: "nat \<Rightarrow> char" where
  "digitChar d = ''0123456789'' ! d"

fun decimal :: "nat \<Rightarrow> string" where
  "decimal n =
     (if 10 \<le> n then decimal (n div 10) @ [digitChar (n mod 10)] else [digitChar n])"

declare decimal.simps [simp del]

definition numberToString :: "int \<Rightarrow> string" where
  "numberToString i = (if 0 \<le> i then decimal (nat i) else CHR ''-'' # decimal (nat \<bar>i\<bar>))"

text \<open>\<^verbatim>\<open>Math.round\<close>: the nearest integer, a tie going up.\<close>

definition Math_round :: "real \<Rightarrow> int" where
  "Math_round v = \<lfloor>v + 1 / 2\<rfloor>"

text \<open>
  \<^verbatim>\<open>Number.prototype.toFixed(1)\<close> below \<open>10\<^sup>2\<^sup>1\<close> in magnitude: the sign, then the
  integer \<open>n\<close> nearest to ten times the magnitude (the larger one at a tie), printed with
  one digit after the point.
\<close>

definition toFixed1 :: "real \<Rightarrow> string" where
  "toFixed1 v =
     (let s = (if v < 0 then ''-'' else '''');
          n = nat \<lfloor>\<bar>v\<bar> * 10 + 1 / 2\<rfloor>
      in s @ decimal (n div 10) @ ''.'' @ decimal (n mod 10))"

text \<open>
  \<^verbatim>\<open>Math.atan2(y, x)\<close> on finite arguments: the angle of the point \<open>(x, y)\<close> in
  \<open>(-\<pi>, \<pi>]\<close>, and zero at the origin. The differences the code passes are never a
  negative zero.
\<close>

definition atan2 :: "real \<Rightarrow> real \<Rightarrow> real" where
  "atan2 y x =
     (if 0 < x then arctan (y / x)
      else if x < 0 then (if 0 \<le> y then arctan (y / x) + pi else arctan (y / x) - pi)
      else if 0 < y then pi / 2
      else if y < 0 then - (pi / 2)
      else 0)"

text \<open>The check mark U+2713 and the degree sign U+00B0 in UTF-8.\<close>

definition check_mark :: string where
  "check_mark = [CHR 0xE2, CHR 0x9C, CHR 0x93]"

definition degree_sign :: string where
  "degree_sign = [CHR 0xC2, CHR 0xB0]"

subsection \<open>\<^verbatim>\<open>checkCompliance\<close>\<close>

definition calculateAngle :: "Point2D \<Rightarrow> Point2D \<Rightarrow> real" where
  "calculateAngle p1 p2 =
     (let deltaY = py p2 - py p1;
          deltaX = px p2 - px p1;
          angleRad = atan2 deltaY deltaX
      in (angleRad * 180) / pi)"

text \<open>Check 1: exactly one face detected.\<close>

definition faceCountCheck :: "FaceDetectionResult list \<Rightarrow> ComplianceCheck" where
  "faceCountCheck faces =
     \<lparr> check_id = ''face-count'',
       label = ''Single Face Detected'',
       passed = (length faces = 1),
       message =
         (if length faces = 0
          then ''No face detected. Please ensure your face is clearly visible.''
          else if length faces > 1
          then decimal (length faces)
                 @ '' faces detected. Only one person should be in the photo.''
          else ''One face detected '' @ check_mark) \<rparr>"

text \<open>Check 2: head resolution quality.\<close>

definition headHeightPixels :: "FaceDetectionResult \<Rightarrow> real" where
  "headHeightPixels face = height (boundingBox face) * 1.25"

definition minHeadPixels :: real where
  "minHeadPixels = 150"

definition headSizeCheck :: "FaceDetectionResult \<Rightarrow> ComplianceCheck" where
  "headSizeCheck face =
     \<lparr> check_id = ''head-size'',
       label = ''Head Size'',
       passed = (headHeightPixels face \<ge> minHeadPixels),
       message =
         (if headHeightPixels face < minHeadPixels
          then ''Face too small ('' @ numberToString (Math_round (headHeightPixels face))
                 @ ''px). Move closer to the camera for better quality.''
          else ''Head size sufficient ('' @ numberToString (Math_round (headHeightPixels face))
                 @ ''px) '' @ check_mark) \<rparr>"

text \<open>The eye line.\<close>

definition eyeCenterY :: "FaceDetectionResult \<Rightarrow> real" where
  "eyeCenterY face = (py (leftEye (landmarks face)) + py (rightEye (landmarks face))) / 2"

definition eyeCenterX :: "FaceDetectionResult \<Rightarrow> real" where
  "eyeCenterX face = (px (leftEye (landmarks face)) + px (rightEye (landmarks face))) / 2"

text \<open>
  Check 3: margin around the face for the crop. The source binds
  \<^verbatim>\<open>estimatedFullHead\<close> to \<^verbatim>\<open>boundingBox.height\<close>, not to \<^verbatim>\<open>headHeightPixels\<close>.
  It also binds \<^verbatim>\<open>headTop\<close> and \<^verbatim>\<open>eyeCenterX\<close>, which it never reads.
\<close>

definition hasEnoughMargin :: "real \<Rightarrow> FaceDetectionResult \<Rightarrow> bool" where
  "hasEnoughMargin imageHeight face =
     (let estimatedFullHead = height (boundingBox face);
          targetHeadPercent = 0.595;
          cropSourceHeight = estimatedFullHead / targetHeadPercent;
          targetEyeFromTop = cropSourceHeight * (1 - 0.625);
          neededAboveEyes = targetEyeFromTop;
          availableAboveEyes = eyeCenterY face;
          neededBelowEyes = cropSourceHeight - targetEyeFromTop;
          availableBelowEyes = imageHeight - eyeCenterY face
      in availableAboveEyes \<ge> neededAboveEyes * 0.95
         \<and> availableBelowEyes \<ge> neededBelowEyes * 0.95)"

definition eyeHeightCheck :: "real \<Rightarrow> FaceDetectionResult \<Rightarrow> ComplianceCheck" where
  "eyeHeightCheck imageHeight face =
     (let estimatedFullHead = height (boundingBox face);
          targetHeadPercent = 0.595;
          cropSourceHeight = estimatedFullHead / targetHeadPercent;
          targetEyeFromTop = cropSourceHeight * (1 - 0.625);
          neededAboveEyes = targetEyeFromTop;
          availableAboveEyes = eyeCenterY face
      in \<lparr> check_id = ''eye-height'',
            label = ''Framing Margin'',
            passed = hasEnoughMargin imageHeight face,
            message =
              (if \<not> hasEnoughMargin imageHeight face
               then (if availableAboveEyes < neededAboveEyes * 0.95
                     then ''Not enough space above head. Move down or step back from the camera.''
                     else ''Not enough space below chin. Move up or step back from the camera.'')
               else ''Sufficient framing margin for crop '' @ check_mark) \<rparr>)"

text \<open>Check 4: head tilt from the eye alignment.\<close>

definition headTilt :: "FaceDetectionResult \<Rightarrow> real" where
  "headTilt face =
     (let eyeAngle = calculateAngle (leftEye (landmarks face)) (rightEye (landmarks face))
      in if \<bar>eyeAngle\<bar> > 90 then 180 - \<bar>eyeAngle\<bar> else \<bar>eyeAngle\<bar>)"

definition headTiltCheck :: "FaceDetectionResult \<Rightarrow> ComplianceCheck" where
  "headTiltCheck face =
     \<lparr> check_id = ''head-tilt'',
       label = ''Head Alignment'',
       passed = (headTilt face \<le> 5),
       message =
         (if headTilt face > 5
          then ''Head is tilted '' @ toFixed1 (headTilt face) @ degree_sign
                 @ ''. Keep your head level.''
          else ''Head alignment correct (tilt: '' @ toFixed1 (headTilt face) @ degree_sign
                 @ '') '' @ check_mark) \<rparr>"

text \<open>Check 5: horizontal centering.\<close>

definition horizontalOffsetPercent :: "real \<Rightarrow> FaceDetectionResult \<Rightarrow> real" where
  "horizontalOffsetPercent imageWidth face =
     (let faceCenterX = originX (boundingBox face) + width (boundingBox face) / 2;
          imageCenterX = imageWidth / 2;
          horizontalOffset = \<bar>faceCenterX - imageCenterX\<bar>
      in (horizontalOffset / imageWidth) * 100)"

definition centeringCheck :: "real \<Rightarrow> FaceDetectionResult \<Rightarrow> ComplianceCheck" where
  "centeringCheck imageWidth face =
     (let faceCenterX = originX (boundingBox face) + width (boundingBox face) / 2;
          imageCenterX = imageWidth / 2
      in \<lparr> check_id = ''horizontal-centering'',
            label = ''Horizontal Centering'',
            passed = (horizontalOffsetPercent imageWidth face \<le> 10),
            message =
              (if horizontalOffsetPercent imageWidth face > 10
               then (if faceCenterX < imageCenterX
                     then ''Face too far left. Center yourself in the frame.''
                     else ''Face too far right. Center yourself in the frame.'')
               else ''Face centered horizontally '' @ check_mark) \<rparr>)"

text \<open>
  The function itself: the check list grows by one entry per rule and the metrics record
  is updated in place, in the order of the source.
\<close>

definition checkCompliance ::
  "real \<Rightarrow> real \<Rightarrow> FaceDetectionResult list \<Rightarrow> ComplianceResult" where
  "checkCompliance imageWidth imageHeight faces =
     (let metrics0 = \<lparr> faceCount = length faces, headHeightPercent = 0,
                       eyeHeightPercent = 0, headTiltDegrees = 0,
                       horizontalCenterOffset = 0 \<rparr>;
          checks1 = [] @ [faceCountCheck faces]
      in if length faces \<noteq> 1
         then \<lparr> result_passed = False, checks = checks1, metrics = metrics0,
                faceData = None \<rparr>
         else
           let face = faces ! 0;
               metrics1 = metrics0 \<lparr> headHeightPercent :=
                            (headHeightPixels face / imageHeight) * 100 \<rparr>;
               checks2 = checks1 @ [headSizeCheck face];
               eyeHeightFromBottom = imageHeight - eyeCenterY face;
               metrics2 = metrics1 \<lparr> eyeHeightPercent :=
                            (eyeHeightFromBottom / imageHeight) * 100 \<rparr>;
               checks3 = checks2 @ [eyeHeightCheck imageHeight face];
               metrics3 = metrics2 \<lparr> headTiltDegrees := headTilt face \<rparr>;
               checks4 = checks3 @ [headTiltCheck face];
               metrics4 = metrics3 \<lparr> horizontalCenterOffset :=
                            horizontalOffsetPercent imageWidth face \<rparr>;
               checks5 = checks4 @ [centeringCheck imageWidth face];
               allPassed = list_all passed checks5
           in \<lparr> result_passed = allPassed, checks = checks5, metrics = metrics4,
                 faceData = Some face \<rparr>)"

subsection \<open>Summary helpers\<close>

text \<open>\<^verbatim>\<open>getComplianceSummary\<close> (\<^verbatim>\<open>compliance.ts\<close>): a count of the failed checks.\<close>

definition getComplianceSummary :: "ComplianceResult \<Rightarrow> string" where
  "getComplianceSummary result =
     (if result_passed result
      then ''Photo meets all US passport requirements '' @ check_mark
      else
        let failedCount = length (filter (\<lambda>c. \<not> passed c) (checks result))
        in decimal failedCount @ '' requirement''
             @ (if failedCount > 1 then ''s'' else '''') @ '' not met'')"

text \<open>
  \<^verbatim>\<open>getComplianceErrorMessage\<close> (\<^verbatim>\<open>passportPhotoProcessor.ts\<close>): the message of
  the most critical failure; \<^verbatim>\<open>null\<close> is \<open>None\<close>.
\<close>

definition getComplianceErrorMessage :: "ComplianceResult \<Rightarrow> string option" where
  "getComplianceErrorMessage compliance =
     (if result_passed compliance then None
      else
        let failedChecks = filter (\<lambda>c. \<not> passed c) (checks compliance)
        in if length failedChecks = 0 then None
           else
             let criticalCheck =
                   (case find (\<lambda>c. check_id c = ''face-count'') failedChecks of
                      Some c \<Rightarrow> c
                    | None \<Rightarrow> failedChecks ! 0)
             in Some (message criticalCheck))"

subsection \<open>\<^verbatim>\<open>cropToPassport\<close>\<close>

text \<open>
  The canvas is modelled by its size and the drawing calls made on it. The only failure of
  the function is a missing 2D context.
\<close>

datatype CanvasOp =
  FillRect string real real real real
| DrawImage real real real real real real real real

record Canvas =
  canvas_width :: real
  canvas_height :: real
  ops :: "CanvasOp list"

datatype crop_error = ContextError string

definition outputSize :: real where
  "outputSize = 600"

text \<open>Source crop dimensions: a square of side \<^verbatim>\<open>outputSize / scale\<close>.\<close>

definition scale :: "FaceDetectionResult \<Rightarrow> real" where
  "scale face =
     (let targetHeadHeightPercent = 0.595;
          targetHeadHeight = outputSize * targetHeadHeightPercent;
          currentHeadHeight = height (boundingBox face) * 1.25
      in targetHeadHeight / currentHeadHeight)"

definition sourceCropWidth :: "FaceDetectionResult \<Rightarrow> real" where
  "sourceCropWidth face = outputSize / scale face"

definition sourceCropHeight :: "FaceDetectionResult \<Rightarrow> real" where
  "sourceCropHeight face = outputSize / scale face"

text \<open>The window origin before clamping.\<close>

definition idealCropX :: "FaceDetectionResult \<Rightarrow> real" where
  "idealCropX face = eyeCenterX face - sourceCropWidth face / 2"

definition idealCropY :: "FaceDetectionResult \<Rightarrow> real" where
  "idealCropY face =
     (let targetEyeHeightFromBottom = outputSize * 0.625
      in eyeCenterY face - (outputSize - targetEyeHeightFromBottom) / scale face)"

text \<open>The window origin after clamping to the source image.\<close>

definition sourceCropX :: "real \<Rightarrow> FaceDetectionResult \<Rightarrow> real" where
  "sourceCropX sourceWidth face =
     max 0 (min (idealCropX face) (sourceWidth - sourceCropWidth face))"

definition sourceCropY :: "real \<Rightarrow> FaceDetectionResult \<Rightarrow> real" where
  "sourceCropY sourceHeight face =
     max 0 (min (idealCropY face) (sourceHeight - sourceCropHeight face))"

text \<open>The edge case of a crop area larger than the source.\<close>

definition actualCropWidth :: "real \<Rightarrow> FaceDetectionResult \<Rightarrow> real" where
  "actualCropWidth sourceWidth face =
     min (sourceCropWidth face) (sourceWidth - sourceCropX sourceWidth face)"

definition actualCropHeight :: "real \<Rightarrow> FaceDetectionResult \<Rightarrow> real" where
  "actualCropHeight sourceHeight face =
     min (sourceCropHeight face) (sourceHeight - sourceCropY sourceHeight face)"

text \<open>
  The function: \<open>ctx\<close> says whether \<^verbatim>\<open>canvas.getContext('2d')\<close> gave a context;
  \<open>sourceWidth\<close> and \<open>sourceHeight\<close> are \<^verbatim>\<open>image.width\<close> and \<^verbatim>\<open>image.height\<close>,
  \<open>face\<close> is the parameter \<^verbatim>\<open>faceData\<close>.
\<close>

definition cropToPassport ::
  "bool \<Rightarrow> real \<Rightarrow> real \<Rightarrow> FaceDetectionResult \<Rightarrow> crop_error + Canvas" where
  "cropToPassport ctx sourceWidth sourceHeight face =
     (if \<not> ctx then Inl (ContextError ''Failed to get canvas context'')
      else Inr \<lparr> canvas_width = outputSize, canvas_height = outputSize,
                 ops = [ FillRect ''#FFFFFF'' 0 0 outputSize outputSize,
                         DrawImage (sourceCropX sourceWidth face)
                                   (sourceCropY sourceHeight face)
                                   (actualCropWidth sourceWidth face)
                                   (actualCropHeight sourceHeight face)
                                   0 0 outputSize outputSize ] \<rparr>)"

subsection \<open>Double-precision rounding\<close>





subsection \<open>Sample inputs\<close>

text \<open>
  A compliant photo: one face in a 1000 by 1000 image, bounding box of height 300 centred
  horizontally, both eyes at \<open>y = 450\<close>.
\<close>

definition face_compliant :: FaceDetectionResult where
  "face_compliant =
     \<lparr> boundingBox = \<lparr> originX = 350, originY = 300, width = 300, height = 300 \<rparr>,
       landmarks = \<lparr> leftEye = \<lparr> px = 450, py = 450 \<rparr>,
                     rightEye = \<lparr> px = 550, py = 450 \<rparr>,
                     nose = \<lparr> px = 500, py = 500 \<rparr>,
                     mouth = \<lparr> px = 500, py = 550 \<rparr> \<rparr>,
       confidence = 0.9 \<rparr>"

text \<open>The same face with the eye line at \<open>y = 200\<close>, close to the top edge.\<close>

definition face_high_eyes :: FaceDetectionResult where
  "face_high_eyes =
     \<lparr> boundingBox = \<lparr> originX = 350, originY = 50, width = 300, height = 300 \<rparr>,
       landmarks = \<lparr> leftEye = \<lparr> px = 450, py = 200 \<rparr>,
                     rightEye = \<lparr> px = 550, py = 200 \<rparr>,
                     nose = \<lparr> px = 500, py = 250 \<rparr>,
                     mouth = \<lparr> px = 500, py = 300 \<rparr> \<rparr>,
       confidence = 0.9 \<rparr>"

text \<open>Faces at the head-size threshold: bounding boxes of height 120 and 119.99.\<close>

definition face_height_120 :: FaceDetectionResult where
  "face_height_120 =
     \<lparr> boundingBox = \<lparr> originX = 440, originY = 400, width = 120, height = 120 \<rparr>,
       landmarks = \<lparr> leftEye = \<lparr> px = 480, py = 450 \<rparr>,
                     rightEye = \<lparr> px = 520, py = 450 \<rparr>,
                     nose = \<lparr> px = 500, py = 470 \<rparr>,
                     mouth = \<lparr> px = 500, py = 490 \<rparr> \<rparr>,
       confidence = 0.9 \<rparr>"

definition face_height_below_120 :: FaceDetectionResult where
  "face_height_below_120 =
     \<lparr> boundingBox = \<lparr> originX = 440, originY = 400, width = 120, height = 119.99 \<rparr>,
       landmarks = \<lparr> leftEye = \<lparr> px = 480, py = 450 \<rparr>,
                     rightEye = \<lparr> px = 520, py = 450 \<rparr>,
                     nose = \<lparr> px = 500, py = 470 \<rparr>,
                     mouth = \<lparr> px = 500, py = 490 \<rparr> \<rparr>,
       confidence = 0.9 \<rparr>"

text \<open>A face whose eye line rises by 10 pixels over 100.\<close>

definition face_tilted :: FaceDetectionResult where
  "face_tilted =
     \<lparr> boundingBox = \<lparr> originX = 350, originY = 300, width = 300, height = 300 \<rparr>,
       landmarks = \<lparr> leftEye = \<lparr> px = 450, py = 450 \<rparr>,
                     rightEye = \<lparr> px = 550, py = 460 \<rparr>,
                     nose = \<lparr> px = 500, py = 500 \<rparr>,
                     mouth = \<lparr> px = 500, py = 550 \<rparr> \<rparr>,
       confidence = 0.9 \<rparr>"



section \<open>Properties\<close>

subsection \<open>The shape of the result\<close>

lemma checkCompliance_other:
  "length faces \<noteq> 1 \<Longrightarrow> checkCompliance w h faces =
     \<lparr> result_passed = False, checks = [faceCountCheck faces],
       metrics = \<lparr> faceCount = length faces, headHeightPercent = 0,
                   eyeHeightPercent = 0, headTiltDegrees = 0, horizontalCenterOffset = 0 \<rparr>,
       faceData = None \<rparr>"
  by (simp add: checkCompliance_def)

lemma checkCompliance_single:
  "checkCompliance w h [face] =
     \<lparr> result_passed =
         (passed (faceCountCheck [face]) \<and> passed (headSizeCheck face)
          \<and> passed (eyeHeightCheck h face) \<and> passed (headTiltCheck face)
          \<and> passed (centeringCheck w face)),
       checks = [faceCountCheck [face], headSizeCheck face, eyeHeightCheck h face,
                 headTiltCheck face, centeringCheck w face],
       metrics = \<lparr> faceCount = 1,
                   headHeightPercent = (headHeightPixels face / h) * 100,
                   eyeHeightPercent = ((h - eyeCenterY face) / h) * 100,
                   headTiltDegrees = headTilt face,
                   horizontalCenterOffset = horizontalOffsetPercent w face \<rparr>,
       faceData = Some face \<rparr>"
  by (simp add: checkCompliance_def Let_def)

text \<open>
  C2. For a face list whose length is not 1, the result has \<open>passed = false\<close>, exactly one
  check, which is the face-count check, \<open>faceCount\<close> equal to the length of the list, every
  other metric zero, and no \<open>faceData\<close>. For a list of length 1, \<open>faceData\<close> is that face,
  whatever checks 2 to 5 say.
\<close>

theorem C2_face_count_gating:
  "(length faces \<noteq> 1 \<longrightarrow>
      \<not> result_passed (checkCompliance w h faces)
      \<and> length (checks (checkCompliance w h faces)) = 1
      \<and> checks (checkCompliance w h faces) ! 0 = faceCountCheck faces
      \<and> check_id (checks (checkCompliance w h faces) ! 0) = ''face-count''
      \<and> metrics (checkCompliance w h faces) =
          \<lparr> faceCount = length faces, headHeightPercent = 0, eyeHeightPercent = 0,
            headTiltDegrees = 0, horizontalCenterOffset = 0 \<rparr>
      \<and> faceData (checkCompliance w h faces) = None)
   \<and> (length faces = 1 \<longrightarrow> faceData (checkCompliance w h faces) = Some (faces ! 0))"
proof (intro conjI impI)
  assume n: "length faces = 1"
  then obtain face where "faces = [face]"
    by (cases faces) auto
  then show "faceData (checkCompliance w h faces) = Some (faces ! 0)"
    by (simp add: checkCompliance_single)
qed (simp_all add: checkCompliance_other faceCountCheck_def)

theorem C2_face_count_gating_witness:
  "length ([] :: FaceDetectionResult list) \<noteq> 1
   \<and> \<not> result_passed (checkCompliance 1000 1000 [])
   \<and> length (checks (checkCompliance 1000 1000 [])) = 1
   \<and> check_id (checks (checkCompliance 1000 1000 []) ! 0) = ''face-count''
   \<and> faceCount (metrics (checkCompliance 1000 1000 [])) = 0
   \<and> faceData (checkCompliance 1000 1000 []) = None
   \<and> length [face_high_eyes] = 1
   \<and> faceData (checkCompliance 1000 1000 [face_high_eyes]) = Some face_high_eyes"
proof -
  have none: "length ([] :: FaceDetectionResult list) \<noteq> 1"
    and one: "length [face_high_eyes] = 1" and first: "[face_high_eyes] ! 0 = face_high_eyes"
    by simp_all
  have "faceCount (metrics (checkCompliance 1000 1000 [])) = 0"
    using C2_face_count_gating [of "[]" 1000 1000] by simp
  then show ?thesis
    using C2_face_count_gating [of "[]" 1000 1000]
      C2_face_count_gating [of "[face_high_eyes]" 1000 1000] none one first
    by metis
qed

subsection \<open>Head size\<close>

text \<open>
  C6. With exactly one face, the head-size check (the second check) passes if and only if
  \<open>boundingBox.height * 1.25 \<ge> 150\<close>: it passes at a bounding-box height of 120 and fails
  at 119.99.
\<close>

theorem C6_head_size_threshold:
  "check_id (checks (checkCompliance w h [face]) ! 1) = ''head-size''
   \<and> passed (checks (checkCompliance w h [face]) ! 1)
       = (height (boundingBox face) * 1.25 \<ge> 150)
   \<and> (height (boundingBox face) = 120 \<longrightarrow> passed (checks (checkCompliance w h [face]) ! 1))
   \<and> (height (boundingBox face) = 119.99
        \<longrightarrow> \<not> passed (checks (checkCompliance w h [face]) ! 1))"
  by (simp add: checkCompliance_single headSizeCheck_def headHeightPixels_def minHeadPixels_def)

theorem C6_head_size_threshold_witness:
  "height (boundingBox face_height_120) = 120
   \<and> passed (checks (checkCompliance 1000 1000 [face_height_120]) ! 1)
   \<and> height (boundingBox face_height_below_120) = 119.99
   \<and> \<not> passed (checks (checkCompliance 1000 1000 [face_height_below_120]) ! 1)"
  using C6_head_size_threshold [of 1000 1000 face_height_120]
    C6_head_size_threshold [of 1000 1000 face_height_below_120]
  by (simp add: face_height_120_def face_height_below_120_def)

subsection \<open>The crop window\<close>

lemma cropToPassport_draws:
  "cropToPassport True sourceWidth sourceHeight face =
     Inr \<lparr> canvas_width = 600, canvas_height = 600,
           ops = [ FillRect ''#FFFFFF'' 0 0 600 600,
                   DrawImage (sourceCropX sourceWidth face) (sourceCropY sourceHeight face)
                             (actualCropWidth sourceWidth face)
                             (actualCropHeight sourceHeight face) 0 0 600 600 ] \<rparr>"
  by (simp add: cropToPassport_def outputSize_def)

lemma cropToPassport_no_context:
  "cropToPassport False sourceWidth sourceHeight face
     = Inl (ContextError ''Failed to get canvas context'')"
  by (simp add: cropToPassport_def)

text \<open>
  C3. For a source image of positive dimensions and any face, the rectangle that
  \<^verbatim>\<open>cropToPassport\<close> draws from lies within the source image: its origin is not negative
  and its right and bottom edges do not pass the width and the height.
\<close>

theorem C3_clamp_containment:
  assumes "0 < sourceWidth" and "0 < sourceHeight"
  shows "cropToPassport True sourceWidth sourceHeight face =
           Inr \<lparr> canvas_width = 600, canvas_height = 600,
                 ops = [ FillRect ''#FFFFFF'' 0 0 600 600,
                         DrawImage (sourceCropX sourceWidth face) (sourceCropY sourceHeight face)
                                   (actualCropWidth sourceWidth face)
                                   (actualCropHeight sourceHeight face) 0 0 600 600 ] \<rparr>
         \<and> 0 \<le> sourceCropX sourceWidth face
         \<and> 0 \<le> sourceCropY sourceHeight face
         \<and> sourceCropX sourceWidth face + actualCropWidth sourceWidth face \<le> sourceWidth
         \<and> sourceCropY sourceHeight face + actualCropHeight sourceHeight face \<le> sourceHeight"
proof (intro conjI)
  show "0 \<le> sourceCropX sourceWidth face" by (simp add: sourceCropX_def)
  show "0 \<le> sourceCropY sourceHeight face" by (simp add: sourceCropY_def)
  show "sourceCropX sourceWidth face + actualCropWidth sourceWidth face \<le> sourceWidth"
    by (simp add: actualCropWidth_def)
  show "sourceCropY sourceHeight face + actualCropHeight sourceHeight face \<le> sourceHeight"
    by (simp add: actualCropHeight_def)
qed (rule cropToPassport_draws)

theorem C3_clamp_containment_witness:
  "(0::real) < 1000
   \<and> 0 \<le> sourceCropX 1000 face_compliant
   \<and> 0 \<le> sourceCropY 1000 face_compliant
   \<and> sourceCropX 1000 face_compliant + actualCropWidth 1000 face_compliant \<le> 1000
   \<and> sourceCropY 1000 face_compliant + actualCropHeight 1000 face_compliant \<le> 1000"
  using C3_clamp_containment [of 1000 1000 face_compliant]
  by simp








subsection \<open>The head tilt\<close>

text \<open>The angle of \<^verbatim>\<open>Math.atan2\<close> lies in \<open>(-\<pi>, \<pi>]\<close>.\<close>

lemma atan2_bounds: "- pi < atan2 y x \<and> atan2 y x \<le> pi"
proof -
  have b: "- (pi / 2) < arctan (y / x)" "arctan (y / x) < pi / 2"
    by (rule arctan_lbound, rule arctan_ubound)
  have neg: "x < 0 \<Longrightarrow> y < 0 \<Longrightarrow> 0 < arctan (y / x)"
    by (simp add: zero_less_arctan_iff zero_less_divide_iff)
  have nonneg: "x < 0 \<Longrightarrow> 0 \<le> y \<Longrightarrow> arctan (y / x) \<le> 0"
    by (simp add: arctan_le_zero_iff divide_le_0_iff)
  show ?thesis
    using b neg nonneg pi_gt_zero by (auto simp add: atan2_def)
qed

lemma calculateAngle_bounds: "- 180 < calculateAngle p q \<and> calculateAngle p q \<le> 180"
proof -
  let ?t = "atan2 (py q - py p) (px q - px p)"
  have c: "calculateAngle p q = ?t * 180 / pi"
    by (simp add: calculateAngle_def Let_def)
  have "- pi < ?t" "?t \<le> pi" using atan2_bounds by simp_all
  then have "- 180 < ?t * 180 / pi" "?t * 180 / pi \<le> 180"
    using pi_gt_zero by (simp_all add: pos_less_divide_eq pos_divide_le_eq)
  then show ?thesis unfolding c by simp
qed

lemma headTilt_range: "0 \<le> headTilt face \<and> headTilt face \<le> 90"
  using calculateAngle_bounds [of "leftEye (landmarks face)" "rightEye (landmarks face)"]
  by (auto simp add: headTilt_def Let_def)


text \<open>
  C10. With exactly one face, \<open>headTiltDegrees\<close> lies in the closed interval from 0 to 90,
  whatever the eye landmarks are.
\<close>

theorem C10_head_tilt_range:
  "0 \<le> headTiltDegrees (metrics (checkCompliance w h [face]))
   \<and> headTiltDegrees (metrics (checkCompliance w h [face])) \<le> 90"
  using headTilt_range [of face] by (simp add: checkCompliance_single)

theorem C10_head_tilt_range_witness:
  "0 \<le> headTiltDegrees (metrics (checkCompliance 1000 1000 [face_tilted]))
   \<and> headTiltDegrees (metrics (checkCompliance 1000 1000 [face_tilted])) \<le> 90"
  using C10_head_tilt_range [of 1000 1000 face_tilted] by simp

subsection \<open>The compliant scenario\<close>

text \<open>
  The metric of the exact model is the expression of \<open>eyeHeightPercent_double\<close> without
  the rounding.
\<close>

lemma eyeHeightPercent_exact:
  "eyeHeightPercent (metrics (checkCompliance imageWidth imageHeight [face]))
     = ((imageHeight
          - (py (leftEye (landmarks face)) + py (rightEye (landmarks face))) / 2)
        / imageHeight) * 100"
  by (simp add: checkCompliance_single eyeCenterY_def)








subsection \<open>The framing margin\<close>

text \<open>
  What the check computes: the crop height it compares with is
  \<open>boundingBox.height / 0.595\<close>, without the factor 1.25 of the head estimate.
\<close>

lemma eyeHeightCheck_passed_iff:
  "passed (eyeHeightCheck imageHeight face)
   \<longleftrightarrow> eyeCenterY face \<ge> 0.95 * (height (boundingBox face) / 0.595) * 0.375
       \<and> imageHeight - eyeCenterY face \<ge> 0.95 * (height (boundingBox face) / 0.595) * 0.625"
  by (auto simp add: eyeHeightCheck_def hasEnoughMargin_def Let_def)

text \<open>
  C1. With the full head estimate, the framing-margin check (id \<open>eye-height\<close>) would pass
  if and only if \<open>eyeCenterY \<ge> 0.95 * (boundingBox.height * 1.25 / 0.595) * 0.375\<close> and
  \<open>imageHeight - eyeCenterY \<ge> 0.95 * (boundingBox.height * 1.25 / 0.595) * 0.625\<close>. The
  code does not do so: for \<open>face_high_eyes\<close> in a 1000 by 1000 image the check passes,
  although the eye line at \<open>y = 200\<close> leaves less room above it than the first inequality
  asks for (about 224.5).
\<close>

theorem C1_framing_margin_omits_head_factor:
  "check_id (checks (checkCompliance 1000 1000 [face_high_eyes]) ! 2) = ''eye-height''
   \<and> passed (checks (checkCompliance 1000 1000 [face_high_eyes]) ! 2)
   \<and> eyeCenterY face_high_eyes = 200
   \<and> \<not> (eyeCenterY face_high_eyes
          \<ge> 0.95 * (height (boundingBox face_high_eyes) * 1.25 / 0.595) * 0.375
        \<and> 1000 - eyeCenterY face_high_eyes
          \<ge> 0.95 * (height (boundingBox face_high_eyes) * 1.25 / 0.595) * 0.625)"
  by (simp add: checkCompliance_single eyeHeightCheck_def hasEnoughMargin_def eyeCenterY_def
      face_high_eyes_def Let_def)

subsection \<open>The summary helpers\<close>

lemma find_filter:
  "find P (filter Q xs) = find (\<lambda>x. Q x \<and> P x) xs"
  by (induction xs) auto

lemma filter_first:
  "filter Q xs \<noteq> [] \<Longrightarrow> find Q xs = Some (filter Q xs ! 0)"
  by (induction xs) auto

lemma filter_empty_find: "filter Q xs = [] \<Longrightarrow> find Q xs = None"
  by (induction xs) (auto split: if_splits)

lemma check_ids:
  "check_id (faceCountCheck faces) = ''face-count''"
  "check_id (headSizeCheck face) = ''head-size''"
  "check_id (eyeHeightCheck imageHeight face) = ''eye-height''"
  "check_id (headTiltCheck face) = ''head-tilt''"
  "check_id (centeringCheck imageWidth face) = ''horizontal-centering''"
  by (simp_all add: faceCountCheck_def headSizeCheck_def eyeHeightCheck_def
      headTiltCheck_def centeringCheck_def Let_def)

text \<open>
  C5. \<^verbatim>\<open>getComplianceSummary\<close> does not return the face-count failure message when the
  face-count check failed: for an image without a face, where \<open>passed = false\<close>, it returns
  the count text \<open>1 requirement not met\<close>.
\<close>

theorem C5_summary_is_a_count_counterexample:
  "\<not> result_passed (checkCompliance 1000 1000 [])
   \<and> \<not> passed (checks (checkCompliance 1000 1000 []) ! 0)
   \<and> check_id (checks (checkCompliance 1000 1000 []) ! 0) = ''face-count''
   \<and> message (checks (checkCompliance 1000 1000 []) ! 0)
       = ''No face detected. Please ensure your face is clearly visible.''
   \<and> getComplianceSummary (checkCompliance 1000 1000 []) = ''1 requirement not met''
   \<and> getComplianceSummary (checkCompliance 1000 1000 [])
       \<noteq> message (checks (checkCompliance 1000 1000 []) ! 0)"
  by (simp add: checkCompliance_other faceCountCheck_def getComplianceSummary_def
      decimal.simps digitChar_def)

text \<open>
  C5. For a result with \<open>passed = false\<close>, \<^verbatim>\<open>getComplianceErrorMessage\<close>
  returns the message of the first failing check with id \<open>face-count\<close> when there is one,
  and otherwise the message of the first failing check in list order (\<^verbatim>\<open>null\<close> when no
  check failed); \<^verbatim>\<open>getComplianceSummary\<close> returns the number of failing checks followed
  by \<open>requirement(s) not met\<close>.
\<close>

theorem C5_error_message_selection:
  assumes "\<not> result_passed r"
  shows "getComplianceErrorMessage r =
           (case find (\<lambda>c. \<not> passed c \<and> check_id c = ''face-count'') (checks r) of
              Some c \<Rightarrow> Some (message c)
            | None \<Rightarrow> map_option message (find (\<lambda>c. \<not> passed c) (checks r)))
         \<and> getComplianceSummary r =
             decimal (length (filter (\<lambda>c. \<not> passed c) (checks r))) @ '' requirement''
               @ (if length (filter (\<lambda>c. \<not> passed c) (checks r)) > 1 then ''s'' else '''')
               @ '' not met''"
proof (intro conjI)
  let ?failed = "filter (\<lambda>c. \<not> passed c) (checks r)"
  show "getComplianceErrorMessage r =
           (case find (\<lambda>c. \<not> passed c \<and> check_id c = ''face-count'') (checks r) of
              Some c \<Rightarrow> Some (message c)
            | None \<Rightarrow> map_option message (find (\<lambda>c. \<not> passed c) (checks r)))"
  proof (cases "?failed = []")
    case True
    then have "find (\<lambda>c. \<not> passed c) (checks r) = None"
      by (rule filter_empty_find)
    moreover from this have "find (\<lambda>c. \<not> passed c \<and> check_id c = ''face-count'') (checks r) = None"
      by (auto simp add: find_None_iff)
    ultimately show ?thesis
      using assms True by (simp add: getComplianceErrorMessage_def)
  next
    case False
    then have first: "find (\<lambda>c. \<not> passed c) (checks r) = Some (?failed ! 0)"
      by (rule filter_first)
    show ?thesis
      using assms False first
      by (simp add: getComplianceErrorMessage_def Let_def find_filter split: option.splits)
  qed
next
  show "getComplianceSummary r =
             decimal (length (filter (\<lambda>c. \<not> passed c) (checks r))) @ '' requirement''
               @ (if length (filter (\<lambda>c. \<not> passed c) (checks r)) > 1 then ''s'' else '''')
               @ '' not met''"
    using assms by (simp add: getComplianceSummary_def Let_def)
qed

theorem C5_error_message_selection_witness:
  "\<not> result_passed (checkCompliance 1000 1000 [face_height_below_120])
   \<and> getComplianceErrorMessage (checkCompliance 1000 1000 [face_height_below_120])
       = Some ''Face too small (150px). Move closer to the camera for better quality.''
   \<and> \<not> result_passed (checkCompliance 1000 1000 [])
   \<and> getComplianceErrorMessage (checkCompliance 1000 1000 [])
       = Some ''No face detected. Please ensure your face is clearly visible.''"
proof -
  have p1: "passed (faceCountCheck [face_height_below_120])"
    by (simp add: faceCountCheck_def)
  have p2: "\<not> passed (headSizeCheck face_height_below_120)"
    by (simp add: headSizeCheck_def headHeightPixels_def minHeadPixels_def
        face_height_below_120_def)
  have m2: "message (headSizeCheck face_height_below_120)
              = ''Face too small (150px). Move closer to the camera for better quality.''"
    by (simp add: headSizeCheck_def headHeightPixels_def minHeadPixels_def
        face_height_below_120_def Math_round_def numberToString_def decimal.simps digitChar_def)
  have p0: "\<not> passed (faceCountCheck [])"
    and m0: "message (faceCountCheck [])
               = ''No face detected. Please ensure your face is clearly visible.''"
    by (simp_all add: faceCountCheck_def)
  have a: "\<not> result_passed (checkCompliance 1000 1000 [face_height_below_120])"
    using p2 by (simp add: checkCompliance_single)
  have b: "\<not> result_passed (checkCompliance 1000 1000 [])"
    by (simp add: checkCompliance_other)
  have "getComplianceErrorMessage (checkCompliance 1000 1000 [face_height_below_120])
       = Some ''Face too small (150px). Move closer to the camera for better quality.''"
    using C5_error_message_selection [OF a] p1 p2 m2
    by (simp add: checkCompliance_single check_ids)
  moreover have "getComplianceErrorMessage (checkCompliance 1000 1000 [])
       = Some ''No face detected. Please ensure your face is clearly visible.''"
    using C5_error_message_selection [OF b] p0 m0
    by (simp add: checkCompliance_other check_ids)
  ultimately show ?thesis using a b by blast
qed

end
